theory Spec2Isabelle
  imports Complex_Main "HOL-Library.Sublist"
begin

section \<open>Data points and configuration (TemperatureChart.tsx)\<close>

text \<open>
  A JavaScript number is modelled by an integer where the code only stores
  millisecond clock readings (\<open>Date.now()\<close>) and by a real elsewhere. The
  comparisons of the code against the constants 5, -5 and the decimal zoom
  ceilings agree on every finite double with the comparisons on reals, since each
  constant is read as the double nearest to it.
\<close>

record TemperatureDataPoint =
  timestamp :: int
  temperature :: real

record spike_config =
  upperThreshold :: real
  lowerThreshold :: real
  upperColor :: string
  lowerColor :: string
  enabled :: bool

definition SPIKE_CONFIG :: spike_config where
  "SPIKE_CONFIG =
     \<lparr>upperThreshold = 5, lowerThreshold = - 5,
      upperColor = ''#e74c3c'', lowerColor = ''#3498db'', enabled = True\<rparr>"

text \<open>
  \<open>ZOOM_LEVELS\<close> is an object literal with the keys 0.005, ..., 0.95. None of
  them is an array index, so \<open>Object.entries\<close> lists the entries in the order
  they are written, and \<open>parseFloat\<close> reads each key back as the number written.
\<close>

definition ZOOM_LEVELS :: "(real \<times> string) list" where
  "ZOOM_LEVELS =
     [(0.005, ''1 Second''),
      (0.02, ''30 Seconds''),
      (0.05, ''1 Minute''),
      (0.1, ''5 Minutes''),
      (0.2, ''15 Minutes''),
      (0.3, ''30 Minutes''),
      (0.5, ''1 Hour''),
      (0.7, ''4 Hours''),
      (0.85, ''12 Hours''),
      (0.95, ''1 Day'')]"

section \<open>detectSpikes\<close>

record spike_set =
  upperSpikes :: "TemperatureDataPoint list"
  lowerSpikes :: "TemperatureDataPoint list"

text \<open>The body of the \<open>forEach\<close> callback: one point is pushed to at most one array.\<close>

definition spike_step :: "spike_config \<Rightarrow> spike_set \<Rightarrow> TemperatureDataPoint \<Rightarrow> spike_set" where
  "spike_step cfg acc point =
     (if temperature point > upperThreshold cfg
        then acc\<lparr>upperSpikes := upperSpikes acc @ [point]\<rparr>
      else if temperature point < lowerThreshold cfg
        then acc\<lparr>lowerSpikes := lowerSpikes acc @ [point]\<rparr>
      else acc)"

text \<open>
  \<open>detectSpikes\<close> reads the module constant \<open>SPIKE_CONFIG\<close>; the configuration is
  a parameter of \<open>detectSpikes_with\<close> so that the disabled branch can be stated.
\<close>

definition detectSpikes_with :: "spike_config \<Rightarrow> TemperatureDataPoint list \<Rightarrow> spike_set" where
  "detectSpikes_with cfg data =
     (if \<not> enabled cfg then \<lparr>upperSpikes = [], lowerSpikes = []\<rparr>
      else foldl (spike_step cfg) \<lparr>upperSpikes = [], lowerSpikes = []\<rparr> data)"

definition detectSpikes :: "TemperatureDataPoint list \<Rightarrow> spike_set" where
  "detectSpikes data = detectSpikes_with SPIKE_CONFIG data"

section \<open>getZoomLevel\<close>

text \<open>The \<open>for ... of\<close> loop over the entries, with the return after the loop.\<close>

fun getZoomLevel_loop :: "(real \<times> string) list \<Rightarrow> real \<Rightarrow> string" where
  "getZoomLevel_loop [] zoomRange = ''1 Week''"
| "getZoomLevel_loop ((threshold, level) # entries) zoomRange =
     (if zoomRange \<le> threshold then level else getZoomLevel_loop entries zoomRange)"

definition getZoomLevel :: "real \<Rightarrow> string" where
  "getZoomLevel zoomRange = getZoomLevel_loop ZOOM_LEVELS zoomRange"

text \<open>
  The time span each zoom label names, in seconds: the measure by which one
  granularity is finer than another. A string that is no zoom label has span 0.
\<close>

definition LEVEL_SECONDS :: "(string \<times> nat) list" where
  "LEVEL_SECONDS =
     [(''1 Second'', 1),
      (''30 Seconds'', 30),
      (''1 Minute'', 60),
      (''5 Minutes'', 300),
      (''15 Minutes'', 900),
      (''30 Minutes'', 1800),
      (''1 Hour'', 3600),
      (''4 Hours'', 14400),
      (''12 Hours'', 43200),
      (''1 Day'', 86400),
      (''1 Week'', 604800)]"

definition level_seconds :: "string \<Rightarrow> nat" where
  "level_seconds level = (case map_of LEVEL_SECONDS level of Some n \<Rightarrow> n | None \<Rightarrow> 0)"

section \<open>The point buffer of the chart component\<close>

text \<open>\<open>Math.round\<close> rounds to the nearest integer, halves upwards.\<close>

definition Math_round :: "real \<Rightarrow> int" where
  "Math_round x = \<lfloor>x + 1 / 2\<rfloor>"

text \<open>
  What \<open>generateDummyData\<close> reads from its environment: the local hour and day
  of the week of a clock reading, and the draws of \<open>Math.random\<close> (the k-th draw
  of the iteration for a given time).
\<close>

record dummy_env =
  getHours :: "int \<Rightarrow> int"
  getDay :: "int \<Rightarrow> int"
  mathRandom :: "int \<Rightarrow> nat \<Rightarrow> real"

definition dummyPoint :: "dummy_env \<Rightarrow> int \<Rightarrow> TemperatureDataPoint" where
  "dummyPoint env time =
     (let hour = getHours env time;
          dayOfWeek = getDay env time;
          baseTemp = (0::real);
          dailyVariation = sin ((real_of_int hour - 6) * pi / 12) * 3;
          weeklyVariation = sin (real_of_int dayOfWeek * pi / 7) * 0.5;
          randomVariation = (mathRandom env time 0 - 0.5) * 0.5;
          clamped = max (- 5) (min 5 (baseTemp + dailyVariation + weeklyVariation + randomVariation));
          spiked =
            (if mathRandom env time 1 < 0.001
             then (if mathRandom env time 2 > 0.5 then 1 else - 1) * (mathRandom env time 3 * 10 + 6)
             else clamped)
      in \<lparr>timestamp = time, temperature = real_of_int (Math_round (spiked * 10)) / 10\<rparr>)"

function generateDummyData_loop ::
  "dummy_env \<Rightarrow> int \<Rightarrow> int \<Rightarrow> TemperatureDataPoint list \<Rightarrow> TemperatureDataPoint list" where
  "generateDummyData_loop env now time data =
     (if time \<le> now
      then generateDummyData_loop env now (time + 1000) (data @ [dummyPoint env time])
      else data)"
  by pat_completeness auto
termination
  by (relation "measure (\<lambda>(env, now, time, data). nat (now - time + 1))") auto

text \<open>The loop equation is applied by hand in the proofs, one iteration at a time.\<close>

declare generateDummyData_loop.simps [simp del]

definition generateDummyData :: "dummy_env \<Rightarrow> int \<Rightarrow> TemperatureDataPoint list" where
  "generateDummyData env now =
     (let twoDaysAgo = now - 3 * 24 * 60 * 60 * 1000
      in generateDummyData_loop env now twoDaysAgo [])"

record zoom_state =
  zoom_start :: real
  zoom_end :: real

text \<open>The part of the option object that \<open>updateChartData\<close> hands to \<open>setOption\<close>.\<close>

record chart_option =
  temperatureSeries :: "(int \<times> real) list"
  upperSpikesSeries :: "(int \<times> real) list"
  lowerSpikesSeries :: "(int \<times> real) list"
  dataZoomStart :: real
  dataZoomEnd :: real

text \<open>
  The refs and state of the component. \<open>echartsInstanceRef\<close> records whether
  \<open>onChartReady\<close> has stored the chart instance; \<open>lastOption\<close> is the argument of
  the latest \<open>setOption\<close> call.
\<close>

record chart =
  dataRef :: "TemperatureDataPoint list"
  zoomStateRef :: zoom_state
  echartsInstanceRef :: bool
  lastOption :: "chart_option option"
  currentZoomLevel :: string
  isZoomedIn :: bool

definition initial_chart :: chart where
  "initial_chart =
     \<lparr>dataRef = [], zoomStateRef = \<lparr>zoom_start = 99.99, zoom_end = 100\<rparr>,
      echartsInstanceRef = False, lastOption = None,
      currentZoomLevel = ''1 Hour'', isZoomedIn = False\<rparr>"

definition series_of :: "TemperatureDataPoint list \<Rightarrow> (int \<times> real) list" where
  "series_of data = map (\<lambda>item. (timestamp item, temperature item)) data"

text \<open>
  \<open>updateChartData\<close>, with the clock reading \<open>Date.now()\<close> and the draw of
  \<open>Math.random()\<close> as inputs.
\<close>

definition updateChartData :: "int \<Rightarrow> real \<Rightarrow> chart \<Rightarrow> chart" where
  "updateChartData now rnd c =
     (let newPoint = \<lparr>timestamp = now,
                       temperature = real_of_int (Math_round ((rnd - 0.5) * 10 * 10)) / 10\<rparr>;
          c1 = c\<lparr>dataRef := dataRef c @ [newPoint]\<rparr>
      in if echartsInstanceRef c1
         then (let spikes = detectSpikes (dataRef c1)
               in c1\<lparr>lastOption := Some
                    \<lparr>temperatureSeries = series_of (dataRef c1),
                     upperSpikesSeries = series_of (upperSpikes spikes),
                     lowerSpikesSeries = series_of (lowerSpikes spikes),
                     dataZoomStart = zoom_start (zoomStateRef c1),
                     dataZoomEnd = zoom_end (zoomStateRef c1)\<rparr>\<rparr>)
         else c1)"

text \<open>
  The parameter of the \<open>dataZoom\<close> event: an optional batch of ranges, and an
  optional range of its own.
\<close>

record zoom_params =
  batch :: "(real \<times> real) list option"
  params_start :: "real option"
  params_end :: "real option"

text \<open>
  The visible span the \<open>dataZoom\<close> handler computes from the first and the last
  point of the buffer; the handler computes it for a non-empty buffer only.
\<close>

definition visibleSpan :: "TemperatureDataPoint list \<Rightarrow> real \<Rightarrow> real \<Rightarrow> real \<times> real" where
  "visibleSpan data start end' =
     (let dataStart = real_of_int (timestamp (hd data));
          dataEnd = real_of_int (timestamp (last data));
          totalRange = dataEnd - dataStart;
          visibleStart = dataStart + (start / 100) * totalRange;
          visibleEnd = dataStart + (end' / 100) * totalRange
      in (visibleStart, visibleEnd))"

definition applyZoom :: "real \<Rightarrow> real \<Rightarrow> chart \<Rightarrow> chart" where
  "applyZoom start end' c =
     (let zoomRange = end' - start;
          c1 = c\<lparr>zoomStateRef := \<lparr>zoom_start = start, zoom_end = end'\<rparr>,
                 currentZoomLevel := getZoomLevel zoomRange\<rparr>
      in if length (dataRef c1) > 0
         then (let (visibleStart, visibleEnd) = visibleSpan (dataRef c1) start end';
                   visibleRangeHours = (visibleEnd - visibleStart) / (1000 * 60 * 60)
               in c1\<lparr>isZoomedIn := (visibleRangeHours \<le> 3)\<rparr>)
         else c1)"

definition dataZoom :: "zoom_params \<Rightarrow> chart \<Rightarrow> chart" where
  "dataZoom params c =
     (case batch params of
        Some (batchItem # _) \<Rightarrow> applyZoom (fst batchItem) (snd batchItem) c
      | _ \<Rightarrow>
          (case (params_start params, params_end params) of
             (Some start, Some end') \<Rightarrow> applyZoom start end' c
           | _ \<Rightarrow> c))"

definition onChartReady :: "chart \<Rightarrow> chart" where
  "onChartReady c = c\<lparr>echartsInstanceRef := True\<rparr>"

text \<open>The mount effect: the buffer is replaced by the generated series.\<close>

definition mountEffect :: "dummy_env \<Rightarrow> int \<Rightarrow> chart \<Rightarrow> chart" where
  "mountEffect env now c = c\<lparr>dataRef := generateDummyData env now\<rparr>"

text \<open>
  The callbacks that reach the component, each run to completion: the mount
  effect, a tick of the one-second interval, the chart being ready, a zoom.
\<close>

datatype chart_event =
    Mount dummy_env int
  | Tick int real
  | ChartReady
  | DataZoom zoom_params

fun chart_step :: "chart \<Rightarrow> chart_event \<Rightarrow> chart" where
  "chart_step c (Mount env now) = mountEffect env now c"
| "chart_step c (Tick now rnd) = updateChartData now rnd c"
| "chart_step c ChartReady = onChartReady c"
| "chart_step c (DataZoom params) = dataZoom params c"

definition run_chart :: "chart_event list \<Rightarrow> chart" where
  "run_chart events = foldl chart_step initial_chart events"

text \<open>The clock readings (\<open>Date.now()\<close>) taken by a sequence of callbacks, in order.\<close>

fun clock_readings :: "chart_event list \<Rightarrow> int list" where
  "clock_readings [] = []"
| "clock_readings (Mount env now # events) = now # clock_readings events"
| "clock_readings (Tick now rnd # events) = now # clock_readings events"
| "clock_readings (e # events) = clock_readings events"

section \<open>The SignalR service (signalRService.ts)\<close>

datatype HubConnectionState = Disconnected | Connecting | Connected | Disconnecting | Reconnecting

text \<open>
  The service: the state of its hub connection, the number of handlers it has
  registered with \<open>connection.on('ReceivePlantTemperature', ...)\<close> (each call of
  \<open>on\<close> passes a fresh closure, so each call adds one), and its set of listeners.
  A JavaScript \<open>Set\<close> keeps insertion order and no duplicates: a list without
  repetitions.
\<close>

record 'cb SignalRService =
  connectionState :: HubConnectionState
  receiveHandlers :: nat
  listeners :: "'cb list"

definition new_SignalRService :: "'cb SignalRService" where
  "new_SignalRService = \<lparr>connectionState = Disconnected, receiveHandlers = 0, listeners = []\<rparr>"

datatype start_outcome = StartReturned | StartAwaiting | StartThrew

text \<open>
  \<open>startConnection\<close> up to its \<open>await\<close>. The hub connection of the SignalR client
  rejects \<open>start()\<close> unless it is Disconnected (the service logs and rethrows),
  and is Connecting while the start is pending.
\<close>

definition startConnection :: "'cb SignalRService \<Rightarrow> start_outcome \<times> 'cb SignalRService" where
  "startConnection s =
     (if connectionState s = Connected then (StartReturned, s)
      else if connectionState s = Disconnected
        then (StartAwaiting, s\<lparr>connectionState := Connecting\<rparr>)
      else (StartThrew, s))"

text \<open>
  \<open>startConnection\<close> after its \<open>await\<close>: the start succeeded and the handler is
  registered, or it failed, the connection is Disconnected again and the error
  is rethrown.
\<close>

definition startConnection_resume ::
  "bool \<Rightarrow> 'cb SignalRService \<Rightarrow> start_outcome \<times> 'cb SignalRService" where
  "startConnection_resume started s =
     (if started
      then (StartReturned,
            s\<lparr>connectionState := Connected, receiveHandlers := receiveHandlers s + 1\<rparr>)
      else (StartThrew, s\<lparr>connectionState := Disconnected\<rparr>))"

definition onPlantTemperatureReceived :: "'cb \<Rightarrow> 'cb SignalRService \<Rightarrow> 'cb SignalRService" where
  "onPlantTemperatureReceived callback s =
     s\<lparr>listeners := (if callback \<in> set (listeners s) then listeners s
                     else listeners s @ [callback])\<rparr>"

text \<open>\<open>Set.delete\<close>: the callback is in the set no longer.\<close>

definition removeListener :: "'cb \<Rightarrow> 'cb SignalRService \<Rightarrow> 'cb SignalRService" where
  "removeListener callback s = s\<lparr>listeners := removeAll callback (listeners s)\<rparr>"

text \<open>
  One run of the handler the service registers: \<open>listeners.forEach\<close> calls the
  listeners in insertion order and ends at the first one that throws. The result
  is the listeners called, and whether the run ended by a throw. Which listeners
  throw on the data is the parameter \<open>throws\<close>.
\<close>

fun notify_listeners :: "('cb \<Rightarrow> bool) \<Rightarrow> 'cb list \<Rightarrow> 'cb list \<times> bool" where
  "notify_listeners throws [] = ([], False)"
| "notify_listeners throws (listener # rest) =
     (if throws listener then ([listener], True)
      else (case notify_listeners throws rest of
              (called, thrown) \<Rightarrow> (listener # called, thrown)))"

text \<open>
  The hub connection runs the handlers registered for a message in turn.
  Whether a handler that throws keeps the later handlers from running depends
  on the version of the SignalR client: it is the parameter \<open>isolated\<close>.
\<close>

fun invoke_handlers :: "bool \<Rightarrow> ('cb \<Rightarrow> bool) \<Rightarrow> nat \<Rightarrow> 'cb list \<Rightarrow> 'cb list" where
  "invoke_handlers isolated throws 0 ls = []"
| "invoke_handlers isolated throws (Suc n) ls =
     (case notify_listeners throws ls of
        (called, thrown) \<Rightarrow>
          if thrown \<and> \<not> isolated then called
          else called @ invoke_handlers isolated throws n ls)"

text \<open>
  A \<open>ReceivePlantTemperature\<close> message on a connected hub. The result lists the
  listener calls made, each with the data passed.
\<close>

definition receivePlantTemperature ::
  "bool \<Rightarrow> ('cb \<Rightarrow> bool) \<Rightarrow> 'd \<Rightarrow> 'cb SignalRService \<Rightarrow> ('cb \<times> 'd) list" where
  "receivePlantTemperature isolated throws data s =
     (if connectionState s = Connected
      then map (\<lambda>listener. (listener, data))
             (invoke_handlers isolated throws (receiveHandlers s) (listeners s))
      else [])"

text \<open>
  The calls a client can make on the service, and what its hub connection does
  by itself. A pending start settles. The connection is built
  \<open>withAutomaticReconnect\<close>: when it is lost the hub is Reconnecting, and
  comes back Connected, with the handlers it had, or gives up and is
  Disconnected. The server can also close a connection for good.
\<close>

datatype 'cb service_event =
    StartConnection
  | StartSettled bool
  | OnPlantTemperatureReceived 'cb
  | RemoveListener 'cb
  | ConnectionLost
  | Reconnected
  | ConnectionClosed

fun service_step :: "'cb SignalRService \<Rightarrow> 'cb service_event \<Rightarrow> 'cb SignalRService" where
  "service_step s StartConnection = snd (startConnection s)"
| "service_step s (StartSettled started) =
     (if connectionState s = Connecting then snd (startConnection_resume started s) else s)"
| "service_step s (OnPlantTemperatureReceived callback) = onPlantTemperatureReceived callback s"
| "service_step s (RemoveListener callback) = removeListener callback s"
| "service_step s ConnectionLost =
     (if connectionState s = Connected then s\<lparr>connectionState := Reconnecting\<rparr> else s)"
| "service_step s Reconnected =
     (if connectionState s = Reconnecting then s\<lparr>connectionState := Connected\<rparr> else s)"
| "service_step s ConnectionClosed =
     (if connectionState s = Connected \<or> connectionState s = Reconnecting
      then s\<lparr>connectionState := Disconnected\<rparr> else s)"

definition run_service :: "'cb service_event list \<Rightarrow> 'cb SignalRService" where
  "run_service events = foldl service_step new_SignalRService events"

text \<open>The events that are calls of the service's own methods.\<close>

fun is_service_call :: "'cb service_event \<Rightarrow> bool" where
  "is_service_call StartConnection = True"
| "is_service_call (OnPlantTemperatureReceived callback) = True"
| "is_service_call (RemoveListener callback) = True"
| "is_service_call e = False"

section \<open>The API service (apiService.ts)\<close>

text \<open>
  The arguments of the \<open>fetch\<close> call: the URL, and the abort signal of the
  options argument, which is where a caller would pass a means of cancellation.
\<close>

record fetch_request =
  url :: string
  abortSignal :: "nat option"

definition ApiService_baseUrl :: "string option \<Rightarrow> string" where
  "ApiService_baseUrl VITE_BACKEND_URL =
     (case VITE_BACKEND_URL of
        None \<Rightarrow> ''http://localhost:5142''
      | Some u \<Rightarrow> (if u = [] then ''http://localhost:5142'' else u))"

definition historical_request :: "string \<Rightarrow> fetch_request" where
  "historical_request baseUrl =
     \<lparr>url = baseUrl @ ''/api/temperature/historical'', abortSignal = None\<rparr>"

text \<open>
  JSON values, as \<open>response.json()\<close> gives them; an object lists its fields in
  the order of the text.
\<close>

datatype json =
    JNull
  | JBool bool
  | JNumber real
  | JString string
  | JArray "json list"
  | JObject "(string \<times> json) list"

text \<open>What \<open>response.json()\<close> settles with: a syntax error, or the value parsed.\<close>

datatype json_result = JsonSyntaxError | JsonValue json

record http_response =
  ok :: bool
  status :: nat
  body :: json_result

datatype fetch_outcome = FetchRejected | FetchResponse http_response

datatype api_error = NetworkError | HttpError nat | JsonParseError | TypeError

text \<open>
  The expression \<open>data.data\<close> on the value parsed, which the code returns
  unchecked: a TypeError on \<open>null\<close>; on an object the value of its \<open>data\<close> field
  (of the last one, when the text repeats the key) or \<open>undefined\<close> when it has
  none; \<open>undefined\<close> on a boolean, a number, a string or an array. \<open>None\<close> is
  \<open>undefined\<close>.
\<close>

fun read_data :: "json \<Rightarrow> api_error + json option" where
  "read_data JNull = Inl TypeError"
| "read_data (JObject members) = Inr (map_of (rev members) ''data'')"
| "read_data v = Inr None"

text \<open>The value \<open>getHistoricalTemperatureData\<close> settles with, given what came back.\<close>

definition getHistoricalTemperatureData :: "fetch_outcome \<Rightarrow> api_error + json option" where
  "getHistoricalTemperatureData outcome =
     (case outcome of
        FetchRejected \<Rightarrow> Inl NetworkError
      | FetchResponse response \<Rightarrow>
          (if \<not> ok response then Inl (HttpError (status response))
           else (case body response of
                   JsonSyntaxError \<Rightarrow> Inl JsonParseError
                 | JsonValue v \<Rightarrow> read_data v)))"

text \<open>A series as the JSON value the backend sends for it.\<close>

definition json_of_point :: "TemperatureDataPoint \<Rightarrow> json" where
  "json_of_point p =
     JObject [(''timestamp'', JNumber (real_of_int (timestamp p))),
              (''temperature'', JNumber (temperature p))]"

definition json_of_series :: "TemperatureDataPoint list \<Rightarrow> json" where
  "json_of_series series = JArray (map json_of_point series)"

text \<open>
  Calls in flight. The service keeps no state between calls: each call sends its
  own request and settles when its own response arrives. \<open>settled\<close> lists, in
  the order they settle, the calls with the value handed to their caller.
\<close>

record api_state =
  issued :: nat
  sent :: "fetch_request list"
  pending :: "nat list"
  settled :: "(nat \<times> (api_error + json option)) list"

definition new_api_state :: api_state where
  "new_api_state = \<lparr>issued = 0, sent = [], pending = [], settled = []\<rparr>"

datatype api_event = Call | Arrive nat fetch_outcome

fun api_step :: "string \<Rightarrow> api_state \<Rightarrow> api_event \<Rightarrow> api_state" where
  "api_step baseUrl s Call =
     s\<lparr>issued := issued s + 1,
       sent := sent s @ [historical_request baseUrl],
       pending := pending s @ [issued s]\<rparr>"
| "api_step baseUrl s (Arrive i outcome) =
     (if i \<in> set (pending s)
      then s\<lparr>pending := removeAll i (pending s),
             settled := settled s @ [(i, getHistoricalTemperatureData outcome)]\<rparr>
      else s)"

definition run_api :: "string \<Rightarrow> api_event list \<Rightarrow> api_state" where
  "run_api baseUrl events = foldl (api_step baseUrl) new_api_state events"

section \<open>Spike detection: proofs\<close>

lemma foldl_spike_step:
  "foldl (spike_step cfg) acc data =
     \<lparr>upperSpikes = upperSpikes acc @ filter (\<lambda>p. temperature p > upperThreshold cfg) data,
      lowerSpikes = lowerSpikes acc @
        filter (\<lambda>p. \<not> temperature p > upperThreshold cfg \<and> temperature p < lowerThreshold cfg) data\<rparr>"
  by (induction data arbitrary: acc) (simp_all add: spike_step_def)

lemma detectSpikes_with_enabled:
  "enabled cfg \<Longrightarrow>
   detectSpikes_with cfg data =
     \<lparr>upperSpikes = filter (\<lambda>p. temperature p > upperThreshold cfg) data,
      lowerSpikes =
        filter (\<lambda>p. \<not> temperature p > upperThreshold cfg \<and> temperature p < lowerThreshold cfg) data\<rparr>"
  by (simp add: detectSpikes_with_def foldl_spike_step)

lemma detectSpikes_filter:
  "detectSpikes data =
     \<lparr>upperSpikes = filter (\<lambda>p. temperature p > 5) data,
      lowerSpikes = filter (\<lambda>p. temperature p < - 5) data\<rparr>"
proof -
  have "(\<lambda>p. \<not> temperature p > 5 \<and> temperature p < - 5) = (\<lambda>p::TemperatureDataPoint. temperature p < - 5)"
    by auto
  then show ?thesis
    by (simp add: detectSpikes_def detectSpikes_with_enabled SPIKE_CONFIG_def)
qed



text \<open>
  C10. A point whose value is exactly 5 or exactly -5 is neither an upper nor a
  lower spike, both comparisons being strict. The upper series is the input
  filtered by "value greater than 5" and the lower series the input filtered by
  "value less than -5", so both keep the relative order of the input.
\<close>

theorem detectSpikes_boundary_and_order:
  "(temperature p = 5 \<or> temperature p = - 5 \<longrightarrow>
      p \<notin> set (upperSpikes (detectSpikes data)) \<and>
      p \<notin> set (lowerSpikes (detectSpikes data))) \<and>
   upperSpikes (detectSpikes data) = filter (\<lambda>p. temperature p > 5) data \<and>
   lowerSpikes (detectSpikes data) = filter (\<lambda>p. temperature p < - 5) data \<and>
   subseq (upperSpikes (detectSpikes data)) data \<and>
   subseq (lowerSpikes (detectSpikes data)) data"
  by (auto simp: detectSpikes_filter)

theorem detectSpikes_boundary_and_order_witness:
  "detectSpikes
     [\<lparr>timestamp = 0, temperature = 5\<rparr>, \<lparr>timestamp = 1000, temperature = 6\<rparr>,
      \<lparr>timestamp = 2000, temperature = - 5\<rparr>, \<lparr>timestamp = 3000, temperature = - 6\<rparr>,
      \<lparr>timestamp = 4000, temperature = 9\<rparr>] =
     \<lparr>upperSpikes = [\<lparr>timestamp = 1000, temperature = 6\<rparr>, \<lparr>timestamp = 4000, temperature = 9\<rparr>],
      lowerSpikes = [\<lparr>timestamp = 3000, temperature = - 6\<rparr>]\<rparr> \<and>
   \<lparr>timestamp = 0, temperature = 5\<rparr> \<notin> set (upperSpikes (detectSpikes
     [\<lparr>timestamp = 0, temperature = 5\<rparr>, \<lparr>timestamp = 1000, temperature = 6\<rparr>,
      \<lparr>timestamp = 2000, temperature = - 5\<rparr>, \<lparr>timestamp = 3000, temperature = - 6\<rparr>,
      \<lparr>timestamp = 4000, temperature = 9\<rparr>]))"
proof -
  let ?d = "[\<lparr>timestamp = 0, temperature = 5\<rparr>, \<lparr>timestamp = 1000, temperature = 6\<rparr>,
      \<lparr>timestamp = 2000, temperature = - 5\<rparr>, \<lparr>timestamp = 3000, temperature = - 6\<rparr>,
      \<lparr>timestamp = 4000, temperature = 9\<rparr>]"
  note t = detectSpikes_boundary_and_order [of "\<lparr>timestamp = 0, temperature = 5\<rparr>" ?d]
  have h: "temperature \<lparr>timestamp = 0, temperature = 5\<rparr> = 5 \<or>
           temperature \<lparr>timestamp = 0, temperature = 5\<rparr> = - 5" by simp
  from t h have a: "\<lparr>timestamp = 0, temperature = 5\<rparr> \<notin> set (upperSpikes (detectSpikes ?d))"
    by blast
  from t have u: "upperSpikes (detectSpikes ?d) = filter (\<lambda>p. temperature p > 5) ?d" by blast
  from t have l: "lowerSpikes (detectSpikes ?d) = filter (\<lambda>p. temperature p < - 5) ?d" by blast
  have "detectSpikes ?d = \<lparr>upperSpikes = upperSpikes (detectSpikes ?d), lowerSpikes = lowerSpikes (detectSpikes ?d)\<rparr>"
    by simp
  also have "\<dots> = \<lparr>upperSpikes = [\<lparr>timestamp = 1000, temperature = 6\<rparr>, \<lparr>timestamp = 4000, temperature = 9\<rparr>],
      lowerSpikes = [\<lparr>timestamp = 3000, temperature = - 6\<rparr>]\<rparr>"
    unfolding u l by simp
  finally show ?thesis using a by simp
qed

lemma getZoomLevel_loop_find:
  "getZoomLevel_loop entries zoomRange =
     (case find (\<lambda>(threshold, level). zoomRange \<le> threshold) entries of
        Some (threshold, level) \<Rightarrow> level
      | None \<Rightarrow> ''1 Week'')"
  by (induction entries zoomRange rule: getZoomLevel_loop.induct) simp_all

section \<open>Zoom levels: proofs\<close>

text \<open>
  C3. \<open>getZoomLevel\<close> returns the label of the first entry of \<open>ZOOM_LEVELS\<close>
  whose ceiling is greater than or equal to its argument, and '1 Week' when there
  is none; the ceilings of the table are strictly ascending; and on 1.0, 0.5,
  0.1, 0.02 it returns '1 Week', '1 Hour', '5 Minutes', '30 Seconds'.
\<close>

theorem getZoomLevel_first_ceiling:
  "getZoomLevel zoomRange =
     (case find (\<lambda>(threshold, level). zoomRange \<le> threshold) ZOOM_LEVELS of
        Some (threshold, level) \<Rightarrow> level
      | None \<Rightarrow> ''1 Week'') \<and>
   sorted_wrt (<) (map fst ZOOM_LEVELS) \<and>
   map getZoomLevel [1.0, 0.5, 0.1, 0.02] = [''1 Week'', ''1 Hour'', ''5 Minutes'', ''30 Seconds'']"
proof (intro conjI)
  show "getZoomLevel zoomRange =
     (case find (\<lambda>(threshold, level). zoomRange \<le> threshold) ZOOM_LEVELS of
        Some (threshold, level) \<Rightarrow> level
      | None \<Rightarrow> ''1 Week'')"
    by (simp only: getZoomLevel_def getZoomLevel_loop_find)
  show "sorted_wrt (<) (map fst ZOOM_LEVELS)"
    by (simp add: ZOOM_LEVELS_def)
  show "map getZoomLevel [1.0, 0.5, 0.1, 0.02] = [''1 Week'', ''1 Hour'', ''5 Minutes'', ''30 Seconds'']"
    by (simp add: getZoomLevel_def ZOOM_LEVELS_def)
qed

lemma getZoomLevel_loop_mono:
  assumes "sorted (map (\<lambda>e. level_seconds (snd e)) entries @ [level_seconds ''1 Week''])"
    and "r1 \<le> r2"
  shows "level_seconds (getZoomLevel_loop entries r1) \<le> level_seconds (getZoomLevel_loop entries r2)"
  using assms
proof (induction entries)
  case Nil
  then show ?case by simp
next
  case (Cons e entries)
  obtain threshold level where e: "e = (threshold, level)" by (cases e)
  have tail: "sorted (map (\<lambda>e. level_seconds (snd e)) entries @ [level_seconds ''1 Week''])"
    using Cons.prems(1) by simp
  have below: "level_seconds level \<le> level_seconds (getZoomLevel_loop entries r)" for r
    using Cons.prems(1) unfolding e
  proof (induction entries)
    case Nil
    then show ?case by simp
  next
    case (Cons f fs)
    obtain t l where f: "f = (t, l)" by (cases f)
    from Cons.prems have "sorted (map (\<lambda>e. level_seconds (snd e)) ((threshold, level) # fs) @ [level_seconds ''1 Week''])"
      by (auto simp: f)
    with Cons.IH have "level_seconds level \<le> level_seconds (getZoomLevel_loop fs r)" by blast
    moreover from Cons.prems have "level_seconds level \<le> level_seconds l" by (simp add: f)
    ultimately show ?case by (simp add: f)
  qed
  show ?case
    using Cons.IH[OF tail Cons.prems(2)] Cons.prems(2) below by (auto simp: e)
qed

lemma level_seconds_table:
  "map (\<lambda>e. level_seconds (snd e)) ZOOM_LEVELS @ [level_seconds ''1 Week''] =
     [1, 30, 60, 300, 900, 1800, 3600, 14400, 43200, 86400, 604800]"
  by (simp add: ZOOM_LEVELS_def level_seconds_def LEVEL_SECONDS_def)

lemma getZoomLevel_loop_known:
  "0 < level_seconds (getZoomLevel_loop ZOOM_LEVELS r)"
  by (simp add: ZOOM_LEVELS_def level_seconds_def LEVEL_SECONDS_def)

lemma getZoomLevel_ceiling:
  "\<forall>entry \<in> set ZOOM_LEVELS. getZoomLevel (fst entry) = snd entry"
  by (simp add: getZoomLevel_def ZOOM_LEVELS_def)

text \<open>
  C6. The mapping is monotonic: for \<open>r1 \<le> r2\<close> the label chosen for \<open>r1\<close> names a
  time span no longer than the label chosen for \<open>r2\<close> (every label returned is a
  known one, of positive span), and an argument equal to a ceiling of the table
  gets the label of that entry.
\<close>

theorem getZoomLevel_monotonic:
  "(r1 \<le> r2 \<longrightarrow> level_seconds (getZoomLevel r1) \<le> level_seconds (getZoomLevel r2)) \<and>
   0 < level_seconds (getZoomLevel r1) \<and>
   (\<forall>entry \<in> set ZOOM_LEVELS. getZoomLevel (fst entry) = snd entry)"
proof (intro conjI impI)
  assume "r1 \<le> r2"
  moreover have "sorted (map (\<lambda>e. level_seconds (snd e)) ZOOM_LEVELS @ [level_seconds ''1 Week''])"
    unfolding level_seconds_table by simp
  ultimately show "level_seconds (getZoomLevel r1) \<le> level_seconds (getZoomLevel r2)"
    unfolding getZoomLevel_def by (rule getZoomLevel_loop_mono[rotated])
next
  show "0 < level_seconds (getZoomLevel r1)"
    unfolding getZoomLevel_def by (rule getZoomLevel_loop_known)
next
  show "\<forall>entry \<in> set ZOOM_LEVELS. getZoomLevel (fst entry) = snd entry"
    by (rule getZoomLevel_ceiling)
qed

theorem getZoomLevel_monotonic_witness:
  "(0.1::real) \<le> 0.4 \<and> (0.1, ''5 Minutes'') \<in> set ZOOM_LEVELS \<and>
   getZoomLevel 0.1 = ''5 Minutes'' \<and>
   level_seconds (getZoomLevel 0.1) \<le> level_seconds (getZoomLevel 0.4) \<and>
   level_seconds (getZoomLevel 0.1) = 300 \<and> level_seconds (getZoomLevel 0.4) = 3600"
proof -
  have h: "(0.1::real) \<le> 0.4" by simp
  have m: "(0.1, ''5 Minutes'') \<in> set ZOOM_LEVELS" by (simp add: ZOOM_LEVELS_def)
  note t = getZoomLevel_monotonic [of "0.1" "0.4"]
  from t h have a: "level_seconds (getZoomLevel 0.1) \<le> level_seconds (getZoomLevel 0.4)" by blast
  from t have "\<forall>entry \<in> set ZOOM_LEVELS. getZoomLevel (fst entry) = snd entry" by blast
  from this m have "getZoomLevel (fst ((0.1::real), ''5 Minutes'')) = snd ((0.1::real), ''5 Minutes'')"
    by (rule bspec)
  then have b: "getZoomLevel 0.1 = ''5 Minutes''" by simp
  have c: "level_seconds (getZoomLevel 0.1) = 300"
    by (simp add: b level_seconds_def LEVEL_SECONDS_def)
  have d: "level_seconds (getZoomLevel 0.4) = 3600"
    by (simp add: getZoomLevel_def ZOOM_LEVELS_def level_seconds_def LEVEL_SECONDS_def)
  from h m a b c d show ?thesis by simp
qed

section \<open>The point buffer: proofs\<close>

lemma timestamp_dummyPoint: "timestamp (dummyPoint env time) = time"
  by (simp add: dummyPoint_def Let_def)

lemma generateDummyData_loop_sorted:
  "sorted_wrt (<) (map timestamp data) \<Longrightarrow>
   (\<forall>p \<in> set data. timestamp p < time \<and> timestamp p \<le> now) \<Longrightarrow>
   sorted_wrt (<) (map timestamp (generateDummyData_loop env now time data)) \<and>
   (\<forall>p \<in> set (generateDummyData_loop env now time data). timestamp p \<le> now)"
proof (induction env now time data rule: generateDummyData_loop.induct)
  case (1 env now time data)
  show ?case
  proof (cases "time \<le> now")
    case True
    have s: "sorted_wrt (<) (map timestamp (data @ [dummyPoint env time]))"
      using "1.prems" by (auto simp: sorted_wrt_append timestamp_dummyPoint)
    have b: "\<forall>p \<in> set (data @ [dummyPoint env time]). timestamp p < time + 1000 \<and> timestamp p \<le> now"
      using "1.prems"(2) True by (auto simp: timestamp_dummyPoint)
    have unfold: "generateDummyData_loop env now time data =
        generateDummyData_loop env now (time + 1000) (data @ [dummyPoint env time])"
      using True by (subst generateDummyData_loop.simps) simp
    from "1.IH"[OF True s b] show ?thesis
      unfolding unfold .
  next
    case False
    have unfold: "generateDummyData_loop env now time data = data"
      using False by (subst generateDummyData_loop.simps) simp
    from "1.prems" show ?thesis
      unfolding unfold by simp
  qed
qed

lemma generateDummyData_sorted:
  "sorted_wrt (<) (map timestamp (generateDummyData env now)) \<and>
   (\<forall>p \<in> set (generateDummyData env now). timestamp p \<le> now)"
  unfolding generateDummyData_def Let_def
  by (rule generateDummyData_loop_sorted) simp_all

lemma dataRef_updateChartData:
  "dataRef (updateChartData now rnd c) =
     dataRef c @ [\<lparr>timestamp = now,
                   temperature = real_of_int (Math_round ((rnd - 0.5) * 10 * 10)) / 10\<rparr>]"
  by (simp add: updateChartData_def Let_def)

lemma dataRef_applyZoom: "dataRef (applyZoom start end' c) = dataRef c"
  by (simp add: applyZoom_def Let_def split: prod.splits)

lemma dataRef_dataZoom: "dataRef (dataZoom params c) = dataRef c"
  by (simp add: dataZoom_def dataRef_applyZoom split: option.splits list.splits)

lemma dataRef_onChartReady: "dataRef (onChartReady c) = dataRef c"
  by (simp add: onChartReady_def)

lemma dataRef_mountEffect: "dataRef (mountEffect env now c) = generateDummyData env now"
  by (simp add: mountEffect_def)

lemma chart_steps_sorted:
  "sorted_wrt (<) (clock_readings events) \<Longrightarrow>
   sorted_wrt (<) (map timestamp (dataRef c)) \<Longrightarrow>
   (\<forall>p \<in> set (dataRef c). \<forall>t \<in> set (clock_readings events). timestamp p < t) \<Longrightarrow>
   sorted_wrt (<) (map timestamp (dataRef (foldl chart_step c events)))"
proof (induction events arbitrary: c)
  case Nil
  then show ?case by simp
next
  case (Cons e events)
  show ?case
  proof (cases e)
    case (Mount env now)
    let ?c = "mountEffect env now c"
    have r: "sorted_wrt (<) (clock_readings events)" and lt: "\<forall>t \<in> set (clock_readings events). now < t"
      using Cons.prems(1) by (auto simp: Mount)
    have s: "sorted_wrt (<) (map timestamp (dataRef ?c))"
      by (simp add: dataRef_mountEffect generateDummyData_sorted)
    have b: "\<forall>p \<in> set (dataRef ?c). \<forall>t \<in> set (clock_readings events). timestamp p < t"
      using generateDummyData_sorted[of env now] lt by (fastforce simp: dataRef_mountEffect)
    from Cons.IH[OF r s b] show ?thesis by (simp add: Mount)
  next
    case (Tick now rnd)
    let ?c = "updateChartData now rnd c"
    have r: "sorted_wrt (<) (clock_readings events)" and lt: "\<forall>t \<in> set (clock_readings events). now < t"
      using Cons.prems(1) by (auto simp: Tick)
    have s: "sorted_wrt (<) (map timestamp (dataRef ?c))"
      using Cons.prems(2,3) by (auto simp: dataRef_updateChartData sorted_wrt_append Tick)
    have b: "\<forall>p \<in> set (dataRef ?c). \<forall>t \<in> set (clock_readings events). timestamp p < t"
      using Cons.prems(3) lt by (auto simp: dataRef_updateChartData Tick)
    from Cons.IH[OF r s b] show ?thesis by (simp add: Tick)
  next
    case ChartReady
    with Cons.prems have "sorted_wrt (<) (map timestamp (dataRef (foldl chart_step (onChartReady c) events)))"
      by (intro Cons.IH) (simp_all add: dataRef_onChartReady)
    then show ?thesis by (simp add: ChartReady)
  next
    case (DataZoom params)
    with Cons.prems have "sorted_wrt (<) (map timestamp (dataRef (foldl chart_step (dataZoom params c) events)))"
      by (intro Cons.IH) (simp_all add: dataRef_dataZoom)
    then show ?thesis by (simp add: DataZoom)
  qed
qed

text \<open>
  C1, as stated, fails: \<open>updateChartData\<close> appends the new point whatever its
  timestamp, and nothing merges or removes duplicates. Two ticks that read the
  same clock value (the wall clock \<open>Date.now()\<close> can stand still or be set back)
  leave two points with one timestamp.
\<close>

theorem buffer_sorted_counterexample:
  "map timestamp (dataRef (run_chart [Tick 1000 0.3, Tick 1000 0.7])) = [1000, 1000] \<and>
   \<not> sorted_wrt (<) (map timestamp (dataRef (run_chart [Tick 1000 0.3, Tick 1000 0.7]))) \<and>
   \<not> distinct (map timestamp (dataRef (run_chart [Tick 1000 0.3, Tick 1000 0.7])))"
  by (simp add: run_chart_def initial_chart_def dataRef_updateChartData)

text \<open>
  C1, amended. Starting from the empty buffer, after any sequence of mount
  loads, interval ticks, chart-ready and zoom callbacks in which every clock
  reading is strictly greater than the one before, the buffer is strictly sorted
  ascending by timestamp and holds no two points with the same timestamp.
\<close>

theorem buffer_sorted_when_clock_increases:
  "sorted_wrt (<) (clock_readings events) \<Longrightarrow>
   sorted_wrt (<) (map timestamp (dataRef (run_chart events))) \<and>
   distinct (map timestamp (dataRef (run_chart events)))"
proof -
  assume h: "sorted_wrt (<) (clock_readings events)"
  have "sorted_wrt (<) (map timestamp (dataRef (foldl chart_step initial_chart events)))"
    by (rule chart_steps_sorted[OF h]) (simp_all add: initial_chart_def)
  then have s: "sorted_wrt (<) (map timestamp (dataRef (run_chart events)))"
    by (simp add: run_chart_def)
  then have "distinct (map timestamp (dataRef (run_chart events)))"
    by (simp add: strict_sorted_iff)
  with s show ?thesis by simp
qed

theorem buffer_sorted_when_clock_increases_witness:
  "sorted_wrt (<) (clock_readings [Tick 1000 0.3, ChartReady, Tick 2000 0.7]) \<and>
   sorted_wrt (<) (map timestamp (dataRef (run_chart [Tick 1000 0.3, ChartReady, Tick 2000 0.7]))) \<and>
   distinct (map timestamp (dataRef (run_chart [Tick 1000 0.3, ChartReady, Tick 2000 0.7]))) \<and>
   map timestamp (dataRef (run_chart [Tick 1000 0.3, ChartReady, Tick 2000 0.7])) = [1000, 2000]"
proof -
  have h: "sorted_wrt (<) (clock_readings [Tick 1000 0.3, ChartReady, Tick 2000 0.7])"
    by simp
  have v: "map timestamp (dataRef (run_chart [Tick 1000 0.3, ChartReady, Tick 2000 0.7])) = [1000, 2000]"
    by (simp add: run_chart_def initial_chart_def dataRef_updateChartData dataRef_onChartReady)
  from buffer_sorted_when_clock_increases [OF h] h v show ?thesis
    by blast
qed

lemma length_after_ticks:
  "length (dataRef (foldl chart_step c (map (\<lambda>(now, rnd). Tick now rnd) ticks))) =
     length (dataRef c) + length ticks"
  by (induction ticks arbitrary: c) (auto simp: dataRef_updateChartData)

text \<open>
  C5, as stated, fails: the component has no trim. No bound holds for the length
  of the buffer: every tick makes it one point longer.
\<close>

theorem buffer_length_unbounded:
  "\<not> (\<exists>bound. \<forall>ticks.
        length (dataRef (run_chart (map (\<lambda>(now, rnd). Tick now rnd) ticks))) \<le> bound)"
proof
  assume "\<exists>bound. \<forall>ticks.
        length (dataRef (run_chart (map (\<lambda>(now, rnd). Tick now rnd) ticks))) \<le> bound"
  then obtain bound where
    b: "\<And>ticks. length (dataRef (run_chart (map (\<lambda>(now, rnd). Tick now rnd) ticks))) \<le> bound"
    by blast
  have "length (dataRef (run_chart (map (\<lambda>(now, rnd). Tick now rnd) (replicate (Suc bound) (0, 0))))) =
      Suc bound"
    unfolding run_chart_def length_after_ticks by (simp add: initial_chart_def)
  with b[of "replicate (Suc bound) (0, 0)"] show False by simp
qed

text \<open>
  C5, amended. \<open>updateChartData\<close> drops no point at all: the buffer after a tick
  is the buffer before it with the new point appended. So every point whose
  timestamp lies within the visible span of the current zoom range is still in
  the buffer after the tick, and after any number of ticks the buffer is longer
  by exactly that number of points.
\<close>

theorem updateChartData_keeps_every_point:
  "dataRef (updateChartData now rnd c) =
     dataRef c @ [\<lparr>timestamp = now,
                   temperature = real_of_int (Math_round ((rnd - 0.5) * 10 * 10)) / 10\<rparr>] \<and>
   (\<forall>p \<in> set (dataRef c).
      fst (visibleSpan (dataRef c) (zoom_start (zoomStateRef c)) (zoom_end (zoomStateRef c)))
        \<le> real_of_int (timestamp p) \<and>
      real_of_int (timestamp p)
        \<le> snd (visibleSpan (dataRef c) (zoom_start (zoomStateRef c)) (zoom_end (zoomStateRef c)))
      \<longrightarrow> p \<in> set (dataRef (updateChartData now rnd c))) \<and>
   length (dataRef (foldl chart_step c (map (\<lambda>(now, rnd). Tick now rnd) ticks))) =
     length (dataRef c) + length ticks"
  by (simp add: dataRef_updateChartData length_after_ticks)

theorem updateChartData_keeps_every_point_witness:
  "\<lparr>timestamp = 1000000000, temperature = 2\<rparr> \<in> set (dataRef
      (initial_chart\<lparr>dataRef := [\<lparr>timestamp = 0, temperature = 1\<rparr>,
                                  \<lparr>timestamp = 1000000000, temperature = 2\<rparr>]\<rparr>)) \<and>
   visibleSpan [\<lparr>timestamp = 0, temperature = 1\<rparr>, \<lparr>timestamp = 1000000000, temperature = 2\<rparr>]
      99.99 100 = (999900000, 1000000000) \<and>
   \<lparr>timestamp = 1000000000, temperature = 2\<rparr> \<in> set (dataRef (updateChartData 1000001000 0.5
      (initial_chart\<lparr>dataRef := [\<lparr>timestamp = 0, temperature = 1\<rparr>,
                                  \<lparr>timestamp = 1000000000, temperature = 2\<rparr>]\<rparr>))) \<and>
   \<lparr>timestamp = 0, temperature = 1\<rparr> \<in> set (dataRef (updateChartData 1000001000 0.5
      (initial_chart\<lparr>dataRef := [\<lparr>timestamp = 0, temperature = 1\<rparr>,
                                  \<lparr>timestamp = 1000000000, temperature = 2\<rparr>]\<rparr>)))"
proof -
  let ?c = "initial_chart\<lparr>dataRef := [\<lparr>timestamp = 0, temperature = 1\<rparr>,
                                  \<lparr>timestamp = 1000000000, temperature = 2\<rparr>]\<rparr>"
  let ?p = "\<lparr>timestamp = 1000000000, temperature = 2\<rparr>"
  have m: "?p \<in> set (dataRef ?c)" by simp
  have v: "visibleSpan [\<lparr>timestamp = 0, temperature = 1\<rparr>, \<lparr>timestamp = 1000000000, temperature = 2\<rparr>]
      99.99 100 = (999900000, 1000000000)"
    by (simp add: visibleSpan_def Let_def)
  have z: "zoom_start (zoomStateRef ?c) = 99.99" "zoom_end (zoomStateRef ?c) = 100"
    "dataRef ?c = [\<lparr>timestamp = 0, temperature = 1\<rparr>, \<lparr>timestamp = 1000000000, temperature = 2\<rparr>]"
    by (simp_all add: initial_chart_def)
  have h: "fst (visibleSpan (dataRef ?c) (zoom_start (zoomStateRef ?c)) (zoom_end (zoomStateRef ?c)))
        \<le> real_of_int (timestamp ?p) \<and>
      real_of_int (timestamp ?p)
        \<le> snd (visibleSpan (dataRef ?c) (zoom_start (zoomStateRef ?c)) (zoom_end (zoomStateRef ?c)))"
    unfolding z v by simp
  note t = updateChartData_keeps_every_point [of 1000001000 "0.5" ?c "[]"]
  from t have "\<forall>p \<in> set (dataRef ?c).
      fst (visibleSpan (dataRef ?c) (zoom_start (zoomStateRef ?c)) (zoom_end (zoomStateRef ?c)))
        \<le> real_of_int (timestamp p) \<and>
      real_of_int (timestamp p)
        \<le> snd (visibleSpan (dataRef ?c) (zoom_start (zoomStateRef ?c)) (zoom_end (zoomStateRef ?c)))
      \<longrightarrow> p \<in> set (dataRef (updateChartData 1000001000 0.5 ?c))"
    by blast
  from bspec[OF this m] h have k: "?p \<in> set (dataRef (updateChartData 1000001000 0.5 ?c))"
    by blast
  from t have "dataRef (updateChartData 1000001000 0.5 ?c) =
     dataRef ?c @ [\<lparr>timestamp = 1000001000,
                   temperature = real_of_int (Math_round ((0.5 - 0.5) * 10 * 10)) / 10\<rparr>]"
    by blast
  then have o: "\<lparr>timestamp = 0, temperature = 1\<rparr> \<in> set (dataRef (updateChartData 1000001000 0.5 ?c))"
    by simp
  from m v k o show ?thesis by blast
qed

lemma newPoint_range:
  assumes "0 \<le> rnd" "rnd < 1"
  shows "- 5 \<le> real_of_int (Math_round ((rnd - 0.5) * 10 * 10)) / 10 \<and>
         real_of_int (Math_round ((rnd - 0.5) * 10 * 10)) / 10 \<le> 5"
proof -
  have "- 50 \<le> (rnd - 0.5) * 10 * 10 + 1 / 2" "(rnd - 0.5) * 10 * 10 + 1 / 2 < 51"
    using assms by simp_all
  then have "- 50 \<le> Math_round ((rnd - 0.5) * 10 * 10)" "Math_round ((rnd - 0.5) * 10 * 10) \<le> 50"
    unfolding Math_round_def by (simp_all add: le_floor_iff floor_le_iff)
  then have "- 50 \<le> real_of_int (Math_round ((rnd - 0.5) * 10 * 10))"
    "real_of_int (Math_round ((rnd - 0.5) * 10 * 10)) \<le> 50"
    by linarith+
  then show ?thesis by simp
qed

text \<open>
  A point appended by \<open>updateChartData\<close> has a value between -5 and 5, the draw
  of \<open>Math.random\<close> lying in [0, 1): it is never a spike.
\<close>

theorem live_point_is_no_spike:
  "0 \<le> rnd \<and> rnd < 1 \<longrightarrow>
     upperSpikes (detectSpikes (dataRef (updateChartData now rnd c))) =
       upperSpikes (detectSpikes (dataRef c)) \<and>
     lowerSpikes (detectSpikes (dataRef (updateChartData now rnd c))) =
       lowerSpikes (detectSpikes (dataRef c))"
proof
  assume "0 \<le> rnd \<and> rnd < 1"
  then have "- 5 \<le> real_of_int (Math_round ((rnd - 0.5) * 10 * 10)) / 10 \<and>
         real_of_int (Math_round ((rnd - 0.5) * 10 * 10)) / 10 \<le> 5"
    using newPoint_range by blast
  then show "upperSpikes (detectSpikes (dataRef (updateChartData now rnd c))) =
       upperSpikes (detectSpikes (dataRef c)) \<and>
     lowerSpikes (detectSpikes (dataRef (updateChartData now rnd c))) =
       lowerSpikes (detectSpikes (dataRef c))"
    by (simp add: dataRef_updateChartData detectSpikes_filter)
qed

theorem live_point_is_no_spike_witness:
  "(0::real) \<le> 0.999 \<and> (0.999::real) < 1 \<and>
   upperSpikes (detectSpikes (dataRef (updateChartData 1000 0.999 initial_chart))) = [] \<and>
   lowerSpikes (detectSpikes (dataRef (updateChartData 1000 0.999 initial_chart))) = []"
proof -
  have h: "(0::real) \<le> 0.999 \<and> (0.999::real) < 1" by simp
  have e: "detectSpikes (dataRef initial_chart) = \<lparr>upperSpikes = [], lowerSpikes = []\<rparr>"
    by (simp add: initial_chart_def detectSpikes_filter)
  from live_point_is_no_spike [of "0.999" 1000 initial_chart] h e show ?thesis
    by simp
qed

text \<open>
  The \<open>dataZoom\<close> handler passes \<open>end - start\<close>, the width of the zoom range in
  percent, to \<open>getZoomLevel\<close>: every range wider than 0.95 percent of the loaded
  data is labelled '1 Week'.
\<close>

theorem zoom_label_reads_percent:
  "0.95 < end' - start \<longrightarrow> currentZoomLevel (applyZoom start end' c) = ''1 Week''"
  by (auto simp: applyZoom_def Let_def getZoomLevel_def ZOOM_LEVELS_def split: prod.splits)

theorem zoom_label_reads_percent_witness:
  "(0.95::real) < 50 - 0 \<and> currentZoomLevel (applyZoom 0 50 initial_chart) = ''1 Week''"
proof -
  have h: "(0.95::real) < 50 - 0" by simp
  from zoom_label_reads_percent [of 50 0 initial_chart] h show ?thesis by blast
qed

section \<open>The SignalR service: proofs\<close>

lemma notify_listeners_subset: "set (fst (notify_listeners throws ls)) \<subseteq> set ls"
  by (induction ls) (auto split: prod.splits)

lemma invoke_handlers_subset: "set (invoke_handlers isolated throws n ls) \<subseteq> set ls"
proof (induction n)
  case 0
  then show ?case by simp
next
  case (Suc n)
  obtain called thrown where c: "notify_listeners throws ls = (called, thrown)"
    by (cases "notify_listeners throws ls")
  with notify_listeners_subset[of throws ls] have "set called \<subseteq> set ls" by simp
  with Suc show ?case by (auto simp: c)
qed

lemma notify_listeners_none_throws: "notify_listeners (\<lambda>_. False) ls = (ls, False)"
  by (induction ls) simp_all

lemma invoke_handlers_none_throws:
  "invoke_handlers isolated (\<lambda>_. False) n ls = concat (replicate n ls)"
  by (induction n) (simp_all add: notify_listeners_none_throws)

lemma startConnection_connected:
  "connectionState s = Connected \<Longrightarrow> startConnection s = (StartReturned, s)"
  by (simp add: startConnection_def)

text \<open>
  Called while the connection is Connected, \<open>startConnection\<close> returns at once
  and leaves the service as it is; in any state but Disconnected the call
  leaves the service unchanged.
\<close>

lemma startConnection_keeps_active_service:
  "connectionState s \<noteq> Disconnected \<Longrightarrow> snd (startConnection s) = s"
  by (simp add: startConnection_def)

text \<open>
  A listener that throws ends \<open>forEach\<close>: the listeners registered after it are
  not called for that point.
\<close>

lemma throwing_listener_stops_delivery:
  "receivePlantTemperature isolated (\<lambda>callback. callback = 1) (21::int) (run_service
      [OnPlantTemperatureReceived (1::nat), OnPlantTemperatureReceived 2,
       StartConnection, StartSettled True]) = [(1, 21)]"
proof -
  have s: "run_service
      [OnPlantTemperatureReceived (1::nat), OnPlantTemperatureReceived 2,
       StartConnection, StartSettled True] =
      \<lparr>connectionState = Connected, receiveHandlers = 1, listeners = [1, 2]\<rparr>"
    by (simp add: run_service_def new_SignalRService_def startConnection_def
        startConnection_resume_def onPlantTemperatureReceived_def)
  show ?thesis
    unfolding s by (simp add: receivePlantTemperature_def)
qed

text \<open>
  C8 fails on the code after a restart. A listener is registered and the
  connection started; the connection is lost and closed; the connection is
  started again, with success. \<open>startConnection\<close> has then registered a second
  handler with the hub, and a further \<open>startConnection\<close> on the connected
  service changes nothing of it: a received point reaches the one listener
  twice, no listener throwing.
\<close>

theorem restart_registers_second_handler:
  "receiveHandlers (run_service
      [OnPlantTemperatureReceived (1::nat), StartConnection, StartSettled True,
       ConnectionLost, ConnectionClosed, StartConnection, StartSettled True,
       StartConnection]) = 2 \<and>
   receivePlantTemperature isolated (\<lambda>_. False) (21::int) (run_service
      [OnPlantTemperatureReceived (1::nat), StartConnection, StartSettled True,
       ConnectionLost, ConnectionClosed, StartConnection, StartSettled True,
       StartConnection]) = [(1, 21), (1, 21)]"
proof -
  have s: "run_service
      [OnPlantTemperatureReceived (1::nat), StartConnection, StartSettled True,
       ConnectionLost, ConnectionClosed, StartConnection, StartSettled True,
       StartConnection] =
      \<lparr>connectionState = Connected, receiveHandlers = 2, listeners = [1]\<rparr>"
    by (simp add: run_service_def new_SignalRService_def startConnection_def
        startConnection_resume_def onPlantTemperatureReceived_def)
  show ?thesis
    unfolding s
    by (simp add: receivePlantTemperature_def invoke_handlers_none_throws numeral_2_eq_2)
qed

text \<open>
  C9, as stated, fails: the service has no stop operation. On an established
  connection, no call of the service leaves the Connected state or removes the
  handler registered with the hub connection.
\<close>

theorem no_stop_operation_counterexample:
  "\<not> (\<exists>e :: nat service_event. is_service_call e \<and>
        (connectionState (service_step (run_service [StartConnection, StartSettled True]) e) \<noteq> Connected \<or>
         receiveHandlers (service_step (run_service [StartConnection, StartSettled True]) e) <
           receiveHandlers (run_service [StartConnection, StartSettled True] :: nat SignalRService)))"
proof -
  have s: "run_service [StartConnection, StartSettled True] =
      (\<lparr>connectionState = Connected, receiveHandlers = 1, listeners = []\<rparr> :: nat SignalRService)"
    by (simp add: run_service_def new_SignalRService_def startConnection_def
        startConnection_resume_def)
  have k: "connectionState (service_step
          \<lparr>connectionState = Connected, receiveHandlers = 1, listeners = []\<rparr> e) = Connected \<and>
        receiveHandlers (service_step
          \<lparr>connectionState = Connected, receiveHandlers = 1, listeners = []\<rparr> e) = 1"
    if "is_service_call e" for e :: "nat service_event"
    using that
    by (cases e) (simp_all add: startConnection_def onPlantTemperatureReceived_def removeListener_def)
  show ?thesis
  proof
    assume "\<exists>e :: nat service_event. is_service_call e \<and>
        (connectionState (service_step (run_service [StartConnection, StartSettled True]) e) \<noteq> Connected \<or>
         receiveHandlers (service_step (run_service [StartConnection, StartSettled True]) e) <
           receiveHandlers (run_service [StartConnection, StartSettled True] :: nat SignalRService))"
    then obtain e :: "nat service_event" where e: "is_service_call e"
      and d: "connectionState (service_step
            \<lparr>connectionState = Connected, receiveHandlers = 1, listeners = []\<rparr> e) \<noteq> Connected \<or>
         receiveHandlers (service_step
            \<lparr>connectionState = Connected, receiveHandlers = 1, listeners = []\<rparr> e) <
           receiveHandlers (\<lparr>connectionState = Connected, receiveHandlers = 1, listeners = []\<rparr>
             :: nat SignalRService)"
      unfolding s by blast
    from k[OF e] d show False by simp
  qed
qed

text \<open>
  C9, amended. The teardown the service offers is \<open>removeListener\<close>: calling it
  again changes nothing more, the removed callback is called for no later
  point, and the connection state and the registered handlers stay as they are.
  No call of the service takes an established connection out of Connected or
  changes the number of registered handlers.
\<close>

theorem removeListener_safe:
  "removeListener callback (removeListener callback s) = removeListener callback s \<and>
   callback \<notin> fst ` set (receivePlantTemperature isolated throws d (removeListener callback s)) \<and>
   connectionState (removeListener callback s) = connectionState s \<and>
   receiveHandlers (removeListener callback s) = receiveHandlers s \<and>
   (is_service_call e \<and> connectionState s = Connected \<longrightarrow>
      connectionState (service_step s e) = Connected \<and>
      receiveHandlers (service_step s e) = receiveHandlers s)"
proof (intro conjI impI)
  show "removeListener callback (removeListener callback s) = removeListener callback s"
    by (simp add: removeListener_def)
  show "callback \<notin> fst ` set (receivePlantTemperature isolated throws d (removeListener callback s))"
    using invoke_handlers_subset[of isolated throws "receiveHandlers s" "removeAll callback (listeners s)"]
    by (auto simp: removeListener_def receivePlantTemperature_def)
  show "connectionState (removeListener callback s) = connectionState s"
    by (simp add: removeListener_def)
  show "receiveHandlers (removeListener callback s) = receiveHandlers s"
    by (simp add: removeListener_def)
next
  assume h: "is_service_call e \<and> connectionState s = Connected"
  then show "connectionState (service_step s e) = Connected"
    by (cases e) (auto simp: startConnection_def onPlantTemperatureReceived_def removeListener_def)
  from h show "receiveHandlers (service_step s e) = receiveHandlers s"
    by (cases e) (auto simp: startConnection_def onPlantTemperatureReceived_def removeListener_def)
qed

theorem removeListener_safe_witness:
  "is_service_call (RemoveListener (1::nat)) \<and>
   connectionState (run_service [StartConnection, StartSettled True, OnPlantTemperatureReceived (1::nat)])
     = Connected \<and>
   connectionState (service_step
      (run_service [StartConnection, StartSettled True, OnPlantTemperatureReceived (1::nat)])
      (RemoveListener 1)) = Connected \<and>
   receiveHandlers (service_step
      (run_service [StartConnection, StartSettled True, OnPlantTemperatureReceived (1::nat)])
      (RemoveListener 1)) = 1 \<and>
   receivePlantTemperature True (\<lambda>_. False) (21::int) (service_step
      (run_service [StartConnection, StartSettled True, OnPlantTemperatureReceived (1::nat)])
      (RemoveListener 1)) = []"
proof -
  let ?s = "run_service [StartConnection, StartSettled True, OnPlantTemperatureReceived (1::nat)]"
  have s: "?s = \<lparr>connectionState = Connected, receiveHandlers = 1, listeners = [1]\<rparr>"
    by (simp add: run_service_def new_SignalRService_def startConnection_def
        startConnection_resume_def onPlantTemperatureReceived_def)
  have i: "is_service_call (RemoveListener (1::nat))" by simp
  have c: "connectionState ?s = Connected" unfolding s by simp
  note t = removeListener_safe [of 1 ?s True "\<lambda>_. False" "21::int" "RemoveListener 1"]
  from t i c have a: "connectionState (service_step ?s (RemoveListener 1)) = Connected"
    and b: "receiveHandlers (service_step ?s (RemoveListener 1)) = receiveHandlers ?s"
    by blast+
  have r: "receivePlantTemperature True (\<lambda>_. False) (21::int) (service_step ?s (RemoveListener 1)) = []"
    unfolding s by (simp add: removeListener_def receivePlantTemperature_def)
  have h: "receiveHandlers ?s = 1" unfolding s by simp
  from i c a b r h show ?thesis by simp
qed

section \<open>The API service: proofs\<close>

lemma api_sent:
  "sent (foldl (api_step baseUrl) s events) =
     sent s @ replicate (length (filter (\<lambda>e. e = Call) events)) (historical_request baseUrl)"
proof (induction events arbitrary: s)
  case Nil
  then show ?case by simp
next
  case (Cons e events)
  show ?case
    by (cases e) (simp_all add: Cons replicate_app_Cons_same)
qed

text \<open>
  C7, as stated, fails: the operation has no parameter. Every call fetches the
  same URL, which names no range and no granularity, and passes no abort signal.
\<close>

theorem historical_request_no_abort_counterexample:
  "abortSignal (historical_request (ApiService_baseUrl None)) = None \<and>
   url (historical_request (ApiService_baseUrl None)) =
     ''http://localhost:5142/api/temperature/historical'' \<and>
   sent (run_api (ApiService_baseUrl None) [Call, Call]) =
     [\<lparr>url = ''http://localhost:5142/api/temperature/historical'', abortSignal = None\<rparr>,
      \<lparr>url = ''http://localhost:5142/api/temperature/historical'', abortSignal = None\<rparr>]"
  by (simp add: historical_request_def ApiService_baseUrl_def run_api_def new_api_state_def)

text \<open>
  C7, amended. \<open>getHistoricalTemperatureData\<close> takes no argument: each call sends
  a request for the base URL followed by \<open>/api/temperature/historical\<close>, with no
  abort signal. It returns the series that an ok response carries in the
  \<open>data\<close> field of its JSON body.
\<close>

theorem getHistoricalTemperatureData_fixed_request:
  "sent (run_api baseUrl events) =
     replicate (length (filter (\<lambda>e. e = Call) events))
       \<lparr>url = baseUrl @ ''/api/temperature/historical'', abortSignal = None\<rparr> \<and>
   (ok response \<and> body response = JsonValue (JObject members) \<and>
    map_of (rev members) ''data'' = Some (json_of_series series) \<longrightarrow>
      getHistoricalTemperatureData (FetchResponse response) = Inr (Some (json_of_series series)))"
proof (intro conjI impI)
  show "sent (run_api baseUrl events) =
     replicate (length (filter (\<lambda>e. e = Call) events))
       \<lparr>url = baseUrl @ ''/api/temperature/historical'', abortSignal = None\<rparr>"
    by (simp add: run_api_def api_sent new_api_state_def historical_request_def)
next
  assume "ok response \<and> body response = JsonValue (JObject members) \<and>
    map_of (rev members) ''data'' = Some (json_of_series series)"
  then show "getHistoricalTemperatureData (FetchResponse response) = Inr (Some (json_of_series series))"
    by (simp add: getHistoricalTemperatureData_def)
qed

theorem getHistoricalTemperatureData_fixed_request_witness:
  "ok \<lparr>ok = True, status = 200, body = JsonValue (JObject
      [(''data'', json_of_series [\<lparr>timestamp = 1640995200000, temperature = 23.5\<rparr>])])\<rparr> \<and>
   map_of (rev [(''data'', json_of_series [\<lparr>timestamp = 1640995200000, temperature = 23.5\<rparr>])])
      ''data'' = Some (json_of_series [\<lparr>timestamp = 1640995200000, temperature = 23.5\<rparr>]) \<and>
   getHistoricalTemperatureData (FetchResponse \<lparr>ok = True, status = 200, body = JsonValue (JObject
      [(''data'', json_of_series [\<lparr>timestamp = 1640995200000, temperature = 23.5\<rparr>])])\<rparr>) =
     Inr (Some (JArray [JObject [(''timestamp'', JNumber 1640995200000),
                                (''temperature'', JNumber 23.5)]]))"
proof -
  let ?series = "[\<lparr>timestamp = 1640995200000, temperature = 23.5\<rparr>]"
  let ?members = "[(''data'', json_of_series ?series)]"
  let ?response = "\<lparr>ok = True, status = 200, body = JsonValue (JObject ?members)\<rparr>"
  have h: "ok ?response \<and> body ?response = JsonValue (JObject ?members) \<and>
      map_of (rev ?members) ''data'' = Some (json_of_series ?series)"
    by simp
  from getHistoricalTemperatureData_fixed_request
         [of "''http://localhost:5142''" "[]" ?response ?members ?series] h
  have "getHistoricalTemperatureData (FetchResponse ?response) = Inr (Some (json_of_series ?series))"
    by blast
  moreover have "json_of_series ?series =
      JArray [JObject [(''timestamp'', JNumber 1640995200000), (''temperature'', JNumber 23.5)]]"
    by (simp add: json_of_series_def json_of_point_def)
  ultimately show ?thesis using h by simp
qed

end
